theory Spec2Isabelle
  imports Main
begin

section \<open>Python numbers\<close>

text \<open>
  The handler computes with Python's \<^verbatim>\<open>int\<close> (unbounded, modelled as \<open>int\<close>) and
  \<^verbatim>\<open>float\<close> (IEEE 754 binary64, round to nearest, ties to even). A finite float is a
  sign, a 53-bit magnitude \<open>m\<close> and an exponent \<open>e\<close>, of value \<open>m * 2 ^ e\<close>, in the
  encoding's own normal form: \<open>2 ^ 52 \<le> m < 2 ^ 53\<close> with \<open>-1074 \<le> e \<le> 971\<close>, or
  \<open>m < 2 ^ 52\<close> with \<open>e = -1074\<close> (zero and the subnormals). The sign is \<open>True\<close> for a
  negative number.
\<close>

datatype double = Finite bool int int | Infinity bool | NaN

datatype py_error = OverflowError

datatype pynum = PInt int | PFloat double

function bitlen :: "int \<Rightarrow> int" where
  "bitlen n = (if n \<le> 0 then 0 else 1 + bitlen (n div 2))"
  by pat_completeness auto
termination
  by (relation "measure nat") auto

text \<open>\<open>m div 2 ^ k\<close>, rounded to nearest, a tie to the even neighbour.\<close>

definition shift_right_even :: "int \<Rightarrow> nat \<Rightarrow> int" where
  "shift_right_even m k =
     (if k = 0 then m
      else (let q = m div 2 ^ k; r = m mod 2 ^ k; h = 2 ^ (k - 1)
            in if h < r \<or> (r = h \<and> odd q) then q + 1 else q))"

text \<open>
  The float nearest to the exact value \<open>m * 2 ^ e\<close> (of any size), with the given sign:
  the exponent is chosen so that 53 bits remain (never below \<open>-1074\<close>), the magnitude is
  rounded to it, a carry out of the 53 bits moves to the next exponent, and a result
  beyond the largest finite float is an infinity.
\<close>

definition round_double :: "bool \<Rightarrow> int \<Rightarrow> int \<Rightarrow> double" where
  "round_double s m e =
     (if m = 0 then Finite s 0 (- 1074)
      else (let e1 = max (e + bitlen m - 53) (- 1074);
                m1 = (if e1 \<le> e then m * 2 ^ nat (e - e1)
                      else shift_right_even m (nat (e1 - e)));
                m2 = (if m1 = 2 ^ 53 then 2 ^ 52 else m1);
                e2 = (if m1 = 2 ^ 53 then e1 + 1 else e1)
            in if 971 < e2 then Infinity s else Finite s m2 e2))"

definition signed :: "bool \<Rightarrow> int \<Rightarrow> int" where
  "signed s m = (if s then - m else m)"

fun double_add :: "double \<Rightarrow> double \<Rightarrow> double" where
  "double_add NaN y = NaN"
| "double_add x NaN = NaN"
| "double_add (Infinity s) (Infinity t) = (if s = t then Infinity s else NaN)"
| "double_add (Infinity s) (Finite t m e) = Infinity s"
| "double_add (Finite s m e) (Infinity t) = Infinity t"
| "double_add (Finite s1 m1 e1) (Finite s2 m2 e2) =
     (let e = min e1 e2;
          c = signed s1 (m1 * 2 ^ nat (e1 - e)) + signed s2 (m2 * 2 ^ nat (e2 - e))
      in if c = 0 then Finite (s1 \<and> s2) 0 (- 1074)
         else round_double (c < 0) \<bar>c\<bar> e)"

fun double_mul :: "double \<Rightarrow> double \<Rightarrow> double" where
  "double_mul NaN y = NaN"
| "double_mul x NaN = NaN"
| "double_mul (Infinity s) (Infinity t) = Infinity (s \<noteq> t)"
| "double_mul (Infinity s) (Finite t m e) = (if m = 0 then NaN else Infinity (s \<noteq> t))"
| "double_mul (Finite s m e) (Infinity t) = (if m = 0 then NaN else Infinity (s \<noteq> t))"
| "double_mul (Finite s1 m1 e1) (Finite s2 m2 e2) =
     round_double (s1 \<noteq> s2) (m1 * m2) (e1 + e2)"

text \<open>
  An \<^verbatim>\<open>int\<close> operand of a float operation is converted first, rounding to nearest
  even; an \<^verbatim>\<open>int\<close> beyond the floats raises \<^verbatim>\<open>OverflowError\<close> (int too large to
  convert to float).
\<close>

definition int_to_double :: "int \<Rightarrow> py_error + double" where
  "int_to_double i =
     (case round_double (i < 0) \<bar>i\<bar> 0 of
        Infinity s \<Rightarrow> Inl OverflowError
      | d \<Rightarrow> Inr d)"

definition to_double :: "pynum \<Rightarrow> py_error + double" where
  "to_double x = (case x of PInt i \<Rightarrow> int_to_double i | PFloat d \<Rightarrow> Inr d)"

text \<open>Python's \<^verbatim>\<open>+\<close> and \<^verbatim>\<open>*\<close> on numbers: exact on two ints, float otherwise.\<close>

definition float_op :: "(double \<Rightarrow> double \<Rightarrow> double) \<Rightarrow> pynum \<Rightarrow> pynum \<Rightarrow> py_error + pynum" where
  "float_op f x y =
     (case to_double x of
        Inl err \<Rightarrow> Inl err
      | Inr a \<Rightarrow> (case to_double y of
                    Inl err \<Rightarrow> Inl err
                  | Inr b \<Rightarrow> Inr (PFloat (f a b))))"

fun py_add :: "pynum \<Rightarrow> pynum \<Rightarrow> py_error + pynum" where
  "py_add (PInt i) (PInt j) = Inr (PInt (i + j))"
| "py_add x y = float_op double_add x y"

fun py_mul :: "pynum \<Rightarrow> pynum \<Rightarrow> py_error + pynum" where
  "py_mul (PInt i) (PInt j) = Inr (PInt (i * j))"
| "py_mul x y = float_op double_mul x y"

text \<open>
  Python's \<^verbatim>\<open>==\<close> on numbers compares values: a NaN equals nothing, the two zeros are
  equal, and an int equals a float when the float is exactly that integer.
\<close>

fun double_eq :: "double \<Rightarrow> double \<Rightarrow> bool" where
  "double_eq NaN y = False"
| "double_eq x NaN = False"
| "double_eq (Finite s1 m1 e1) (Finite s2 m2 e2) =
     (signed s1 (m1 * 2 ^ nat (e1 - min e1 e2)) = signed s2 (m2 * 2 ^ nat (e2 - min e1 e2)))"
| "double_eq x y = (x = y)"

fun int_eq_double :: "int \<Rightarrow> double \<Rightarrow> bool" where
  "int_eq_double i (Finite s m e) =
     (if 0 \<le> e then i = signed s (m * 2 ^ nat e)
      else m mod 2 ^ nat (- e) = 0 \<and> i = signed s (m div 2 ^ nat (- e)))"
| "int_eq_double i d = False"

fun py_eq :: "pynum \<Rightarrow> pynum \<Rightarrow> bool" where
  "py_eq (PInt i) (PInt j) = (i = j)"
| "py_eq (PInt i) (PFloat d) = int_eq_double i d"
| "py_eq (PFloat d) (PInt i) = int_eq_double i d"
| "py_eq (PFloat c) (PFloat d) = double_eq c d"


section \<open>Python values\<close>

text \<open>
  The values a request body and a response are made of: \<^verbatim>\<open>None\<close>, booleans, numbers,
  strings, lists and dictionaries. A dictionary is the list of its items in insertion
  order.
\<close>

datatype pyval =
    VNone
  | VBool bool
  | VNum pynum
  | VStr string
  | VList "pyval list"
  | VDict "(string \<times> pyval) list"

text \<open>
  Python's \<^verbatim>\<open>==\<close> on values: numbers by value (a boolean is the int 0 or 1), lists
  item by item, dictionaries as sets of items whatever their order.
\<close>

fun pyval_eq :: "pyval \<Rightarrow> pyval \<Rightarrow> bool" where
  "pyval_eq VNone VNone = True"
| "pyval_eq (VBool a) (VBool b) = (a = b)"
| "pyval_eq (VBool a) (VNum y) = py_eq (PInt (if a then 1 else 0)) y"
| "pyval_eq (VNum x) (VBool b) = py_eq x (PInt (if b then 1 else 0))"
| "pyval_eq (VNum x) (VNum y) = py_eq x y"
| "pyval_eq (VStr a) (VStr b) = (a = b)"
| "pyval_eq (VList xs) (VList ys) = list_all2 pyval_eq xs ys"
| "pyval_eq (VDict kvs) (VDict kws) =
     (length kvs = length kws \<and>
      list_all (\<lambda>(k, v). case map_of kws k of None \<Rightarrow> False | Some w \<Rightarrow> pyval_eq v w) kvs)"
| "pyval_eq x y = False"

section \<open>The data model\<close>

record Product =
  product_name :: string
  price :: double
  quantity :: int

record Order =
  email :: "string option"
  products :: "Product list"

text \<open>
  \<^verbatim>\<open>Order.total_price\<close>: the accumulator starts as the int \<^verbatim>\<open>0\<close>; each step adds
  \<^verbatim>\<open>product.price * product.quantity\<close>, a float times an int.
\<close>

fun total_price_loop :: "pynum \<Rightarrow> Product list \<Rightarrow> py_error + pynum" where
  "total_price_loop acc [] = Inr acc"
| "total_price_loop acc (product # rest) =
     (case py_mul (PFloat (price product)) (PInt (quantity product)) of
        Inl err \<Rightarrow> Inl err
      | Inr t \<Rightarrow>
          (case py_add acc t of
             Inl err \<Rightarrow> Inl err
           | Inr acc' \<Rightarrow> total_price_loop acc' rest))"

definition total_price :: "Order \<Rightarrow> py_error + pynum" where
  "total_price order = total_price_loop (PInt 0) (products order)"

text \<open>\<^verbatim>\<open>Order.total_quantity\<close>: ints only, so nothing is rounded and nothing raises.\<close>

fun total_quantity_loop :: "int \<Rightarrow> Product list \<Rightarrow> int" where
  "total_quantity_loop acc [] = acc"
| "total_quantity_loop acc (product # rest) =
     total_quantity_loop (acc + quantity product) rest"

definition total_quantity :: "Order \<Rightarrow> int" where
  "total_quantity order = total_quantity_loop 0 (products order)"

section \<open>The handler and the order store\<close>

text \<open>
  \<^verbatim>\<open>order.model_dump()\<close>: the declared fields in order, then the computed fields, each
  evaluated now. A property that raises makes the whole call raise.
\<close>

definition dump_product :: "Product \<Rightarrow> pyval" where
  "dump_product product =
     VDict [(''product_name'', VStr (product_name product)),
            (''price'', VNum (PFloat (price product))),
            (''quantity'', VNum (PInt (quantity product)))]"

definition model_dump :: "Order \<Rightarrow> py_error + pyval" where
  "model_dump order =
     (case total_price order of
        Inl err \<Rightarrow> Inl err
      | Inr tp \<Rightarrow>
          Inr (VDict [(''email'', (case email order of None \<Rightarrow> VNone | Some a \<Rightarrow> VStr a)),
                      (''products'', VList (map dump_product (products order))),
                      (''total_price'', VNum tp),
                      (''total_quantity'', VNum (PInt (total_quantity order)))]))"

text \<open>
  \<^verbatim>\<open>process_order\<close>, with the module's list \<^verbatim>\<open>fake_orders_db\<close> passed in and returned:
  the snapshot is appended first, then the summary is built (the properties are read
  again). An exception leaves the function at once.
\<close>

type_synonym store = "pyval list"

definition process_order :: "store \<Rightarrow> int \<Rightarrow> Order \<Rightarrow> store \<times> (py_error + pyval)" where
  "process_order fake_orders_db customer_id order =
     (case model_dump order of
        Inl err \<Rightarrow> (fake_orders_db, Inl err)
      | Inr snapshot \<Rightarrow>
          (let db = fake_orders_db @ [snapshot]
           in case total_price order of
                Inl err \<Rightarrow> (db, Inl err)
              | Inr tp \<Rightarrow>
                  (db, Inr (VDict [(''id'', VNum (PInt customer_id)),
                                   (''quantity'', VNum (PInt (total_quantity order))),
                                   (''total_price'', VNum tp)]))))"

text \<open>A sequence of calls of the handler, each on the store the one before left.\<close>

fun submit_all :: "store \<Rightarrow> (int \<times> Order) list \<Rightarrow> store \<times> (py_error + pyval) list" where
  "submit_all db [] = (db, [])"
| "submit_all db ((customer_id, order) # rest) =
     (case process_order db customer_id order of
        (db', r) \<Rightarrow> (case submit_all db' rest of (db'', rs) \<Rightarrow> (db'', r # rs)))"

definition succeeded :: "py_error + pyval \<Rightarrow> bool" where
  "succeeded r = (case r of Inl err \<Rightarrow> False | Inr v \<Rightarrow> True)"

section \<open>The validation layer\<close>

text \<open>
  The route decorator and the annotations \<^verbatim>\<open>customer_id: int\<close> and \<^verbatim>\<open>order: Order\<close>
  hand the parsing of the path and of the body to the web framework and the schema
  library, which are not part of the repository. What follows is their behaviour as the
  specification words it, over the fields the two classes declare.
\<close>

datatype validation_error = BadPathParameter | MissingField | WrongType | BadEmail

datatype request_error = Rejected validation_error | Unhandled py_error

text \<open>
  Modelled from the spec: the framework's dispatch, which is missing from the source.
  "Validation failure: the request is rejected before the handler logic runs"; a valid
  request reaches \<^verbatim>\<open>process_order\<close>. The validator is a parameter.
\<close>

definition dispatch ::
  "('req \<Rightarrow> validation_error + int \<times> Order) \<Rightarrow> store \<Rightarrow> 'req \<Rightarrow> store \<times> (request_error + pyval)" where
  "dispatch validate db req =
     (case validate req of
        Inl verr \<Rightarrow> (db, Inl (Rejected verr))
      | Inr (customer_id, order) \<Rightarrow>
          (case process_order db customer_id order of
             (db', Inl err) \<Rightarrow> (db', Inl (Unhandled err))
           | (db', Inr response) \<Rightarrow> (db', Inr response)))"

text \<open>
  Modelled from the spec: the coercion of the path parameter, which is missing from the
  source. "The customer identifier must parse as an integer": decimal digits, with an
  optional minus sign.
\<close>

definition digit_of :: "char \<Rightarrow> int option" where
  "digit_of c = (if c \<in> set ''0123456789'' then Some (of_char c - 48) else None)"

fun parse_digits :: "int \<Rightarrow> string \<Rightarrow> int option" where
  "parse_digits acc [] = Some acc"
| "parse_digits acc (c # cs) =
     (case digit_of c of None \<Rightarrow> None | Some d \<Rightarrow> parse_digits (10 * acc + d) cs)"

definition parse_int :: "string \<Rightarrow> int option" where
  "parse_int s =
     (case s of
        [] \<Rightarrow> None
      | c # cs \<Rightarrow>
          if c = CHR ''-'' then (if cs = [] then None else map_option uminus (parse_digits 0 cs))
          else parse_digits 0 s)"

text \<open>
  Modelled from the spec: the schema library's field validators, which are missing from
  the source. "Each product must supply a name (text), a price (number), and a quantity
  (integer)". An int given as a price becomes the float of that value.
\<close>

fun validate_str :: "pyval option \<Rightarrow> validation_error + string" where
  "validate_str None = Inl MissingField"
| "validate_str (Some (VStr s)) = Inr s"
| "validate_str (Some v) = Inl WrongType"

fun validate_float :: "pyval option \<Rightarrow> validation_error + double" where
  "validate_float None = Inl MissingField"
| "validate_float (Some (VNum (PFloat d))) = Inr d"
| "validate_float (Some (VNum (PInt i))) =
     (case int_to_double i of Inl err \<Rightarrow> Inl WrongType | Inr d \<Rightarrow> Inr d)"
| "validate_float (Some v) = Inl WrongType"

fun validate_int :: "pyval option \<Rightarrow> validation_error + int" where
  "validate_int None = Inl MissingField"
| "validate_int (Some (VNum (PInt i))) = Inr i"
| "validate_int (Some v) = Inl WrongType"

fun validate_all :: "('a \<Rightarrow> validation_error + 'b) \<Rightarrow> 'a list \<Rightarrow> validation_error + 'b list" where
  "validate_all f [] = Inr []"
| "validate_all f (x # xs) =
     (case f x of
        Inl verr \<Rightarrow> Inl verr
      | Inr y \<Rightarrow> (case validate_all f xs of Inl verr \<Rightarrow> Inl verr | Inr ys \<Rightarrow> Inr (y # ys)))"

text \<open>
  Modelled from the spec: the validation of a body against the fields of \<^verbatim>\<open>Product\<close>,
  which is missing from the source.
\<close>

fun validate_product :: "pyval \<Rightarrow> validation_error + Product" where
  "validate_product (VDict kvs) =
     (case validate_str (map_of kvs ''product_name'') of
        Inl verr \<Rightarrow> Inl verr
      | Inr n \<Rightarrow>
          (case validate_float (map_of kvs ''price'') of
             Inl verr \<Rightarrow> Inl verr
           | Inr p \<Rightarrow>
               (case validate_int (map_of kvs ''quantity'') of
                  Inl verr \<Rightarrow> Inl verr
                | Inr q \<Rightarrow> Inr \<lparr>product_name = n, price = p, quantity = q\<rparr>)))"
| "validate_product v = Inl WrongType"

text \<open>
  Modelled from the spec: the validation of the field \<^verbatim>\<open>email: EmailStr | None = None\<close>,
  which is missing from the source. "If an email is present it must match email-address
  syntax"; an absent key takes the declared default \<^verbatim>\<open>None\<close>. The syntax check is the
  parameter \<open>email_syntax\<close>, which returns the address it accepts.
\<close>

fun validate_email :: "(string \<Rightarrow> string option) \<Rightarrow> pyval option \<Rightarrow> validation_error + string option" where
  "validate_email email_syntax None = Inr None"
| "validate_email email_syntax (Some VNone) = Inr None"
| "validate_email email_syntax (Some (VStr s)) =
     (case email_syntax s of None \<Rightarrow> Inl BadEmail | Some a \<Rightarrow> Inr (Some a))"
| "validate_email email_syntax (Some v) = Inl WrongType"

text \<open>
  Modelled from the spec: the validation of a body against the fields of \<^verbatim>\<open>Order\<close>,
  which is missing from the source. "Email optional, products required".
\<close>

fun validate_order :: "(string \<Rightarrow> string option) \<Rightarrow> pyval \<Rightarrow> validation_error + Order" where
  "validate_order email_syntax (VDict kvs) =
     (case validate_email email_syntax (map_of kvs ''email'') of
        Inl verr \<Rightarrow> Inl verr
      | Inr e \<Rightarrow>
          (case map_of kvs ''products'' of
             None \<Rightarrow> Inl MissingField
           | Some (VList vs) \<Rightarrow>
               (case validate_all validate_product vs of
                  Inl verr \<Rightarrow> Inl verr
                | Inr ps \<Rightarrow> Inr \<lparr>email = e, products = ps\<rparr>)
           | Some v \<Rightarrow> Inl WrongType))"
| "validate_order email_syntax v = Inl WrongType"

text \<open>
  Modelled from the spec: the validation of a whole request, path parameter first, which
  is missing from the source.
\<close>

definition validate_request ::
  "(string \<Rightarrow> string option) \<Rightarrow> string \<times> pyval \<Rightarrow> validation_error + int \<times> Order" where
  "validate_request email_syntax req =
     (case parse_int (fst req) of
        None \<Rightarrow> Inl BadPathParameter
      | Some customer_id \<Rightarrow>
          (case validate_order email_syntax (snd req) of
             Inl verr \<Rightarrow> Inl verr
           | Inr order \<Rightarrow> Inr (customer_id, order)))"

text \<open>\<^verbatim>\<open>POST /order/{customer_id}\<close>: the route of the source, behind that validation.\<close>

definition post_order ::
  "(string \<Rightarrow> string option) \<Rightarrow> store \<Rightarrow> string \<Rightarrow> pyval \<Rightarrow> store \<times> (request_error + pyval)" where
  "post_order email_syntax db path_id body =
     dispatch (validate_request email_syntax) db (path_id, body)"

text \<open>
  Modelled from the spec: the email syntax check behind \<^verbatim>\<open>EmailStr\<close>, which is missing
  from the source. "Constrained to look like an email address": a local part, one at
  sign and a domain, none of them empty. Like the library's check, it returns the address
  it accepted in normal form, the domain in lower case.
\<close>

definition lower_ascii :: "char \<Rightarrow> char" where
  "lower_ascii c =
     (case map_of (zip ''ABCDEFGHIJKLMNOPQRSTUVWXYZ'' ''abcdefghijklmnopqrstuvwxyz'') c of
        None \<Rightarrow> c
      | Some l \<Rightarrow> l)"

definition normalise_email :: "string \<Rightarrow> string option" where
  "normalise_email s =
     (let local_part = takeWhile (\<lambda>c. c \<noteq> CHR ''@'') s;
          rest = dropWhile (\<lambda>c. c \<noteq> CHR ''@'') s
      in case rest of
           [] \<Rightarrow> None
         | at # domain \<Rightarrow>
             if local_part = [] \<or> domain = [] \<or> CHR ''@'' \<in> set domain then None
             else Some (local_part @ at # map lower_ascii domain))"

section \<open>The specification's totals\<close>

text \<open>
  The specification's \<^verbatim>\<open>sum(product.price * product.quantity for product in products)\<close>,
  written from its words: the terms are produced and added from left to right, starting
  from \<^verbatim>\<open>0\<close>, and the first exception ends the sum.
\<close>

definition spec_total_price :: "Order \<Rightarrow> py_error + pynum" where
  "spec_total_price order =
     foldl (\<lambda>r product.
              case r of
                Inl err \<Rightarrow> Inl err
              | Inr s \<Rightarrow>
                  (case py_mul (PFloat (price product)) (PInt (quantity product)) of
                     Inl err \<Rightarrow> Inl err
                   | Inr t \<Rightarrow> py_add s t))
       (Inr (PInt 0)) (products order)"

text \<open>An int that converts to a float, that is, one that does not raise when it meets one.\<close>

definition fits_float :: "int \<Rightarrow> bool" where
  "fits_float i = (case int_to_double i of Inl err \<Rightarrow> False | Inr d \<Rightarrow> True)"

section \<open>The totals\<close>

lemma total_quantity_loop_sum:
  "total_quantity_loop acc ps = acc + sum_list (map quantity ps)"
  by (induction ps arbitrary: acc) simp_all

text \<open>
  C1. The computed field \<^verbatim>\<open>total_quantity\<close> of any order is the sum of the quantities of
  its products, taken over the product list.
\<close>

theorem total_quantity_is_sum:
  "total_quantity order = sum_list (map quantity (products order))"
  by (simp add: total_quantity_def total_quantity_loop_sum)

lemma foldl_error_stays:
  "foldl (\<lambda>r x. case r of Inl err \<Rightarrow> Inl err | Inr s \<Rightarrow> f s x) (Inl e) xs = Inl e"
  by (induction xs) simp_all

lemma total_price_loop_foldl:
  "total_price_loop acc ps =
     foldl (\<lambda>r product.
              case r of
                Inl err \<Rightarrow> Inl err
              | Inr s \<Rightarrow>
                  (case py_mul (PFloat (price product)) (PInt (quantity product)) of
                     Inl err \<Rightarrow> Inl err
                   | Inr t \<Rightarrow> py_add s t))
       (Inr acc) ps"
proof (induction ps arbitrary: acc)
  case Nil
  show ?case by simp
next
  case (Cons p ps)
  show ?case
  proof (cases "py_mul (PFloat (price p)) (PInt (quantity p))")
    case (Inl err)
    then show ?thesis by (simp add: foldl_error_stays)
  next
    case (Inr t)
    then show ?thesis
      by (cases "py_add acc t") (simp_all add: Cons.IH foldl_error_stays)
  qed
qed

text \<open>
  C2. The computed field \<^verbatim>\<open>total_price\<close> of any order is the sum of
  \<^verbatim>\<open>price * quantity\<close> over its products in list order: the loop of the source and the
  specification's sum give the same float, bit for bit, and raise on the same orders.
\<close>

theorem total_price_is_sum_in_order:
  "total_price order = spec_total_price order"
  by (simp add: total_price_def spec_total_price_def total_price_loop_foldl)

lemma total_quantity_loop_append:
  "total_quantity_loop acc (ps @ qs) = total_quantity_loop (total_quantity_loop acc ps) qs"
  by (induction ps arbitrary: acc) simp_all

lemma total_price_loop_append:
  "total_price_loop acc (ps @ qs) =
     (case total_price_loop acc ps of Inl err \<Rightarrow> Inl err | Inr t \<Rightarrow> total_price_loop t qs)"
  by (induction ps arbitrary: acc) (simp_all split: sum.splits)

lemma total_price_loop_succeeds_iff:
  "to_double acc = Inr a \<Longrightarrow>
   (\<exists>t. total_price_loop acc ps = Inr t) = list_all (\<lambda>p. fits_float (quantity p)) ps"
proof (induction ps arbitrary: acc a)
  case Nil
  show ?case by simp
next
  case (Cons p ps)
  show ?case
  proof (cases "int_to_double (quantity p)")
    case (Inl err)
    then show ?thesis by (simp add: float_op_def to_double_def fits_float_def)
  next
    case (Inr b)
    have "to_double (PFloat (double_add a (double_mul (price p) b))) =
            Inr (double_add a (double_mul (price p) b))"
      by (simp add: to_double_def)
    from Cons.IH [OF this] Inr Cons.prems show ?thesis
      by (simp add: float_op_def to_double_def fits_float_def)
  qed
qed

lemma total_price_succeeds_iff:
  "(\<exists>t. total_price order = Inr t) = list_all (\<lambda>p. fits_float (quantity p)) (products order)"
proof -
  have "to_double (PInt 0) = Inr (Finite False 0 (- 1074))"
    by (simp add: to_double_def int_to_double_def round_double_def)
  from total_price_loop_succeeds_iff [OF this] show ?thesis
    by (simp add: total_price_def)
qed

section \<open>The handler\<close>

text \<open>
  Once \<^verbatim>\<open>model_dump\<close> has returned, reading \<^verbatim>\<open>total_price\<close> again cannot raise:
  the handler either raises before the append, or appends and returns.
\<close>

lemma process_order_cases:
  "process_order db customer_id order =
     (case total_price order of
        Inl err \<Rightarrow> (db, Inl err)
      | Inr tp \<Rightarrow>
          (db @ [VDict [(''email'', (case email order of None \<Rightarrow> VNone | Some a \<Rightarrow> VStr a)),
                        (''products'', VList (map dump_product (products order))),
                        (''total_price'', VNum tp),
                        (''total_quantity'', VNum (PInt (total_quantity order)))]],
           Inr (VDict [(''id'', VNum (PInt customer_id)),
                       (''quantity'', VNum (PInt (total_quantity order))),
                       (''total_price'', VNum tp)])))"
  by (simp add: process_order_def model_dump_def Let_def split: sum.splits)

lemma succeeded_iff: "succeeded r = (\<exists>v. r = Inr v)"
  by (cases r) (simp_all add: succeeded_def)

lemma process_order_succeeded:
  "succeeded (snd (process_order db customer_id order)) = (\<exists>tp. total_price order = Inr tp)"
  by (cases "total_price order") (simp_all add: process_order_cases succeeded_def)

lemma process_order_success_store:
  assumes "succeeded (snd (process_order db customer_id order))"
  shows "\<exists>snapshot. model_dump order = Inr snapshot \<and>
           fst (process_order db customer_id order) = db @ [snapshot]"
proof -
  from assms obtain tp where "total_price order = Inr tp"
    by (auto simp: process_order_succeeded)
  then show ?thesis
    by (simp add: process_order_cases model_dump_def)
qed

text \<open>
  Every quantity below \<open>2 ^ 1023\<close> in absolute value converts to a float.
\<close>

lemma bitlen_bound: "n < 2 ^ k \<Longrightarrow> bitlen n \<le> int k"
proof (induction k arbitrary: n)
  case 0
  then show ?case by simp
next
  case (Suc k)
  show ?case
  proof (cases "n \<le> 0")
    case True
    then show ?thesis by simp
  next
    case False
    from Suc.prems have "n div 2 < 2 ^ k" by simp
    from Suc.IH [OF this] False show ?thesis
      by (subst bitlen.simps) (simp del: bitlen.simps)
  qed
qed

lemma fits_float_bound:
  assumes "\<bar>i\<bar> < 2 ^ 1023"
  shows "fits_float i"
proof -
  from assms have "bitlen \<bar>i\<bar> \<le> int 1023"
    by (rule bitlen_bound)
  then have "max (bitlen \<bar>i\<bar> - 53) (- 1074) + 1 \<le> 971"
    by (simp del: bitlen.simps)
  then show ?thesis
    unfolding fits_float_def int_to_double_def round_double_def Let_def
    by (auto simp del: bitlen.simps split: double.splits if_splits)
qed

text \<open>
  C3, as amended. For every customer identifier and every order whose quantities all
  convert to a float, the handler appends the snapshot and returns exactly the summary
  \<^verbatim>\<open>{"id": customer_id, "quantity": total_quantity, "total_price": total_price}\<close>.
  A quantity beyond the floats makes \<^verbatim>\<open>price * quantity\<close> raise instead.
\<close>

theorem process_order_returns_summary:
  assumes "list_all (\<lambda>p. fits_float (quantity p)) (products order)"
  shows "\<exists>tp snapshot.
           total_price order = Inr tp \<and> model_dump order = Inr snapshot \<and>
           process_order db customer_id order =
             (db @ [snapshot],
              Inr (VDict [(''id'', VNum (PInt customer_id)),
                          (''quantity'', VNum (PInt (total_quantity order))),
                          (''total_price'', VNum tp)]))"
proof -
  from assms obtain tp where tp: "total_price order = Inr tp"
    using total_price_succeeds_iff [of order] by auto
  then show ?thesis
    by (simp add: process_order_def model_dump_def)
qed

text \<open>
  Scenario A of the specification: \<^verbatim>\<open>POST /order/42\<close> with one product, a pen at
  \<^verbatim>\<open>1.5\<close> (the float \<open>6755399441055744 * 2 ^ -52\<close>) ordered 4 times. The total is
  \<^verbatim>\<open>6.0\<close> (the float \<open>6755399441055744 * 2 ^ -50\<close>).
\<close>

lemma total_price_scenario_A:
  "total_price
     \<lparr>email = None,
      products = [\<lparr>product_name = ''Pen'', price = Finite False 6755399441055744 (- 52), quantity = 4\<rparr>]\<rparr> =
   Inr (PFloat (Finite False 6755399441055744 (- 50)))"
  by code_simp

lemma fits_float_4: "fits_float 4"
  by code_simp

lemma validate_scenario_A:
  "validate_request email_syntax
     (''42'', VDict [(''products'',
        VList [VDict [(''product_name'', VStr ''Pen''),
                      (''price'', VNum (PFloat (Finite False 6755399441055744 (- 52)))),
                      (''quantity'', VNum (PInt 4))]])]) =
   Inr (42, \<lparr>email = None,
      products = [\<lparr>product_name = ''Pen'', price = Finite False 6755399441055744 (- 52), quantity = 4\<rparr>]\<rparr>)"
  by (simp add: validate_request_def parse_int_def digit_of_def)

theorem process_order_scenario_A:
  "post_order (\<lambda>s. if CHR ''@'' \<in> set s then Some s else None) [] ''42''
     (VDict [(''products'',
        VList [VDict [(''product_name'', VStr ''Pen''),
                      (''price'', VNum (PFloat (Finite False 6755399441055744 (- 52)))),
                      (''quantity'', VNum (PInt 4))]])]) =
   ([VDict [(''email'', VNone),
            (''products'',
             VList [VDict [(''product_name'', VStr ''Pen''),
                           (''price'', VNum (PFloat (Finite False 6755399441055744 (- 52)))),
                           (''quantity'', VNum (PInt 4))]]),
            (''total_price'', VNum (PFloat (Finite False 6755399441055744 (- 50)))),
            (''total_quantity'', VNum (PInt 4))]],
    Inr (VDict [(''id'', VNum (PInt 42)),
                (''quantity'', VNum (PInt 4)),
                (''total_price'', VNum (PFloat (Finite False 6755399441055744 (- 50))))]))"
proof -
  let ?order = "\<lparr>email = None,
      products = [\<lparr>product_name = ''Pen'', price = Finite False 6755399441055744 (- 52), quantity = 4\<rparr>]\<rparr>"
  have fits: "list_all (\<lambda>p. fits_float (quantity p)) (products ?order)"
    by (simp add: fits_float_4)
  have tq: "total_quantity ?order = 4"
    by (simp add: total_quantity_def)
  from process_order_returns_summary [OF fits, of "[]" 42]
  have "process_order [] 42 ?order =
          ([VDict [(''email'', VNone),
            (''products'',
             VList [VDict [(''product_name'', VStr ''Pen''),
                           (''price'', VNum (PFloat (Finite False 6755399441055744 (- 52)))),
                           (''quantity'', VNum (PInt 4))]]),
            (''total_price'', VNum (PFloat (Finite False 6755399441055744 (- 50)))),
            (''total_quantity'', VNum (PInt 4))]],
    Inr (VDict [(''id'', VNum (PInt 42)),
                (''quantity'', VNum (PInt 4)),
                (''total_price'', VNum (PFloat (Finite False 6755399441055744 (- 50))))]))"
    by (auto simp: total_price_scenario_A tq model_dump_def dump_product_def)
  then show ?thesis
    by (simp add: post_order_def dispatch_def validate_scenario_A)
qed

text \<open>
  The same pen ordered \<open>2 ^ 1024\<close> times: the quantity is an \<^verbatim>\<open>int\<close> like any other, but
  it has no float, so \<^verbatim>\<open>product.price * product.quantity\<close> raises inside
  \<^verbatim>\<open>model_dump\<close>; nothing is stored and no summary is returned.
\<close>

theorem process_order_overflow:
  "process_order [] 42
     \<lparr>email = None,
      products = [\<lparr>product_name = ''Pen'', price = Finite False 6755399441055744 (- 52), quantity = 2 ^ 1024\<rparr>]\<rparr> =
   ([], Inl OverflowError)"
  by code_simp

text \<open>
  C8. The response of the handler is a function of the customer identifier and the order
  alone: two calls with the same identifier and the same order return the same result,
  whatever the order store held before each of them.
\<close>

theorem handler_response_ignores_store:
  "snd (process_order db1 customer_id order) = snd (process_order db2 customer_id order)"
  by (simp add: process_order_cases split: sum.splits)

section \<open>The order store\<close>

lemma process_order_extends_store:
  "\<exists>new. fst (process_order db customer_id order) = db @ new"
  by (cases "total_price order") (simp_all add: process_order_cases)

lemma submit_all_extends_store:
  "\<exists>new. fst (submit_all db reqs) = db @ new"
proof (induction reqs arbitrary: db)
  case Nil
  show ?case by simp
next
  case (Cons req reqs)
  obtain customer_id order where req: "req = (customer_id, order)"
    by (cases req)
  obtain db' r where step: "process_order db customer_id order = (db', r)"
    by (cases "process_order db customer_id order")
  from process_order_extends_store [of db customer_id order] step
  obtain new1 where new1: "db' = db @ new1" by auto
  obtain db'' rs where rest: "submit_all db' reqs = (db'', rs)"
    by (cases "submit_all db' reqs")
  from Cons.IH [of db'] rest obtain new2 where "db'' = db' @ new2"
    by auto
  with new1 req step rest show ?case
    by simp
qed

lemma submit_all_success_store:
  "list_all succeeded (snd (submit_all db reqs)) \<Longrightarrow>
   \<exists>snaps. map (\<lambda>(customer_id, order). model_dump order) reqs = map Inr snaps \<and>
           fst (submit_all db reqs) = db @ snaps"
proof (induction reqs arbitrary: db)
  case Nil
  show ?case by simp
next
  case (Cons req reqs)
  obtain customer_id order where req: "req = (customer_id, order)"
    by (cases req)
  obtain db' r where step: "process_order db customer_id order = (db', r)"
    by (cases "process_order db customer_id order")
  obtain db'' rs where rest: "submit_all db' reqs = (db'', rs)"
    by (cases "submit_all db' reqs")
  from Cons.prems req step rest have ok: "succeeded r" and oks: "list_all succeeded rs"
    by simp_all
  from ok step process_order_success_store [of db customer_id order]
  obtain snapshot where snap: "model_dump order = Inr snapshot" "db' = db @ [snapshot]"
    by auto
  from oks rest Cons.IH [of db']
  obtain snaps where snaps: "map (\<lambda>(customer_id, order). model_dump order) reqs = map Inr snaps"
      "db'' = db' @ snaps"
    by auto
  have "map (\<lambda>(customer_id, order). model_dump order) (req # reqs) = map Inr (snapshot # snaps)"
    using req snap snaps by simp
  moreover have "fst (submit_all db (req # reqs)) = db @ (snapshot # snaps)"
    using req step rest snap snaps by simp
  ultimately show ?case by blast
qed

text \<open>
  C5. Whatever the sequence of calls, the entries the store held before are still its
  first entries, unchanged; and when every call of the sequence succeeds, the store
  afterwards is the store before followed by exactly one snapshot per call, in the order
  of the calls, so \<open>n\<close> successful submissions add \<open>n\<close> entries. Equal orders are not
  merged: each one adds its own entry.
\<close>

theorem store_is_append_only:
  "take (length db) (fst (submit_all db reqs)) = db \<and>
   (list_all succeeded (snd (submit_all db reqs)) \<longrightarrow>
      (\<exists>snaps. map (\<lambda>(customer_id, order). model_dump order) reqs = map Inr snaps \<and>
               fst (submit_all db reqs) = db @ snaps) \<and>
      length (fst (submit_all db reqs)) = length db + length reqs)"
proof (intro conjI impI)
  from submit_all_extends_store [of db reqs]
  show "take (length db) (fst (submit_all db reqs)) = db" by auto
next
  assume ok: "list_all succeeded (snd (submit_all db reqs))"
  from submit_all_success_store [OF ok]
  show "\<exists>snaps. map (\<lambda>(customer_id, order). model_dump order) reqs = map Inr snaps \<and>
          fst (submit_all db reqs) = db @ snaps" .
  from submit_all_success_store [OF ok]
  obtain snaps where snaps: "map (\<lambda>(customer_id, order). model_dump order) reqs = map Inr snaps"
      "fst (submit_all db reqs) = db @ snaps"
    by blast
  from snaps(1) have "length reqs = length snaps"
    by (metis length_map)
  with snaps(2) show "length (fst (submit_all db reqs)) = length db + length reqs"
    by simp
qed

text \<open>The order of scenario A submitted twice: two entries, one per call.\<close>

theorem same_order_twice_two_entries:
  "fst (submit_all []
     [(42, \<lparr>email = None,
        products = [\<lparr>product_name = ''Pen'', price = Finite False 6755399441055744 (- 52), quantity = 4\<rparr>]\<rparr>),
      (42, \<lparr>email = None,
        products = [\<lparr>product_name = ''Pen'', price = Finite False 6755399441055744 (- 52), quantity = 4\<rparr>]\<rparr>)]) =
   [VDict [(''email'', VNone),
            (''products'',
             VList [VDict [(''product_name'', VStr ''Pen''),
                           (''price'', VNum (PFloat (Finite False 6755399441055744 (- 52)))),
                           (''quantity'', VNum (PInt 4))]]),
            (''total_price'', VNum (PFloat (Finite False 6755399441055744 (- 50)))),
            (''total_quantity'', VNum (PInt 4))],
    VDict [(''email'', VNone),
            (''products'',
             VList [VDict [(''product_name'', VStr ''Pen''),
                           (''price'', VNum (PFloat (Finite False 6755399441055744 (- 52)))),
                           (''quantity'', VNum (PInt 4))]]),
            (''total_price'', VNum (PFloat (Finite False 6755399441055744 (- 50)))),
            (''total_quantity'', VNum (PInt 4))]]"
proof -
  let ?order = "\<lparr>email = None,
      products = [\<lparr>product_name = ''Pen'', price = Finite False 6755399441055744 (- 52), quantity = 4\<rparr>]\<rparr>"
  let ?reqs = "[(42::int, ?order), (42, ?order)]"
  have ok: "list_all succeeded (snd (submit_all [] ?reqs))"
    by (simp add: process_order_cases total_price_scenario_A succeeded_def)
  have md: "model_dump ?order =
      Inr (VDict [(''email'', VNone),
            (''products'',
             VList [VDict [(''product_name'', VStr ''Pen''),
                           (''price'', VNum (PFloat (Finite False 6755399441055744 (- 52)))),
                           (''quantity'', VNum (PInt 4))]]),
            (''total_price'', VNum (PFloat (Finite False 6755399441055744 (- 50)))),
            (''total_quantity'', VNum (PInt 4))])"
    by (simp add: model_dump_def total_price_scenario_A total_quantity_def dump_product_def)
  note store_is_append_only [of "[]" ?reqs, THEN conjunct2, THEN mp, OF ok, THEN conjunct1]
  then obtain snaps where "map (\<lambda>(customer_id, order). model_dump order) ?reqs = map Inr snaps"
    and "fst (submit_all [] ?reqs) = [] @ snaps"
    by blast
  with md show ?thesis
    by (auto simp: Cons_eq_map_conv)
qed

text \<open>
  C6. The record a successful call appends is the snapshot of the order: its email, its
  products, and the two computed fields \<^verbatim>\<open>total_price\<close> and \<^verbatim>\<open>total_quantity\<close> with the
  values they have at that moment. It has no entry for the customer identifier, and it
  is the same record whatever that identifier is.
\<close>

theorem stored_record_is_snapshot:
  assumes "succeeded (snd (process_order db customer_id order))"
  shows "(\<exists>tp. total_price order = Inr tp \<and>
            fst (process_order db customer_id order) =
              db @ [VDict [(''email'', (case email order of None \<Rightarrow> VNone | Some a \<Rightarrow> VStr a)),
                           (''products'', VList (map dump_product (products order))),
                           (''total_price'', VNum tp),
                           (''total_quantity'', VNum (PInt (total_quantity order)))]]) \<and>
         fst (process_order db other_id order) = fst (process_order db customer_id order)"
proof -
  from assms obtain tp where "total_price order = Inr tp"
    by (auto simp: process_order_succeeded)
  then show ?thesis
    by (simp add: process_order_cases)
qed

text \<open>
  Scenario B of the specification, stored: two pens at \<^verbatim>\<open>1.5\<close> and a mug at \<^verbatim>\<open>10.0\<close>
  (the float \<open>5629499534213120 * 2 ^ -49\<close>) for customer 7. The record holds the totals
  \<^verbatim>\<open>13.0\<close> (the float \<open>7318349394477056 * 2 ^ -49\<close>) and 3, and no 7.
\<close>

lemma total_price_scenario_B:
  "total_price
     \<lparr>email = Some ''a@b.com'',
      products = [\<lparr>product_name = ''Pen'', price = Finite False 6755399441055744 (- 52), quantity = 2\<rparr>,
                  \<lparr>product_name = ''Mug'', price = Finite False 5629499534213120 (- 49), quantity = 1\<rparr>]\<rparr> =
   Inr (PFloat (Finite False 7318349394477056 (- 49)))"
  by code_simp

theorem stored_record_scenario_B:
  "fst (process_order [] 7
     \<lparr>email = Some ''a@b.com'',
      products = [\<lparr>product_name = ''Pen'', price = Finite False 6755399441055744 (- 52), quantity = 2\<rparr>,
                  \<lparr>product_name = ''Mug'', price = Finite False 5629499534213120 (- 49), quantity = 1\<rparr>]\<rparr>) =
   [VDict [(''email'', VStr ''a@b.com''),
           (''products'',
            VList [VDict [(''product_name'', VStr ''Pen''),
                          (''price'', VNum (PFloat (Finite False 6755399441055744 (- 52)))),
                          (''quantity'', VNum (PInt 2))],
                   VDict [(''product_name'', VStr ''Mug''),
                          (''price'', VNum (PFloat (Finite False 5629499534213120 (- 49)))),
                          (''quantity'', VNum (PInt 1))]]),
           (''total_price'', VNum (PFloat (Finite False 7318349394477056 (- 49)))),
           (''total_quantity'', VNum (PInt 3))]]"
proof -
  let ?order = "\<lparr>email = Some ''a@b.com'',
      products = [\<lparr>product_name = ''Pen'', price = Finite False 6755399441055744 (- 52), quantity = 2\<rparr>,
                  \<lparr>product_name = ''Mug'', price = Finite False 5629499534213120 (- 49), quantity = 1\<rparr>]\<rparr>"
  have ok: "succeeded (snd (process_order [] 7 ?order))"
    by (simp add: process_order_succeeded total_price_scenario_B)
  have tq: "total_quantity ?order = 3"
    by (simp add: total_quantity_def)
  from stored_record_is_snapshot [OF ok] tq show ?thesis
    by (auto simp: total_price_scenario_B dump_product_def)
qed

lemma normalise_email_upper_domain: "normalise_email ''A@B.COM'' = Some ''A@b.com''"
  by (simp add: normalise_email_def lower_ascii_def)

lemma normalise_email_lower_domain: "normalise_email ''a@b.com'' = Some ''a@b.com''"
  by (simp add: normalise_email_def lower_ascii_def)

lemma validate_order_email:
  "validate_order email_syntax (VDict kvs) = Inr order \<Longrightarrow>
   validate_email email_syntax (map_of kvs ''email'') = Inr (email order)"
  by (auto split: sum.splits option.splits pyval.splits)

text \<open>
  C10, as amended. The email field is \<^verbatim>\<open>None\<close> when the body has no email (or gives
  \<^verbatim>\<open>null\<close>), so every snapshot a successful call stores has an \<^verbatim>\<open>email\<close> entry:
  \<^verbatim>\<open>None\<close> when the request gave no address, and otherwise the address the syntax check
  returned for the supplied one, which is its normal form and not always the text that
  was supplied.
\<close>

theorem stored_email_is_validated_address:
  assumes "validate_order email_syntax (VDict kvs) = Inr order"
    and "succeeded (snd (process_order db customer_id order))"
  shows "\<exists>items.
           fst (process_order db customer_id order) = db @ [VDict items] \<and>
           (map_of kvs ''email'' = None \<longrightarrow> map_of items ''email'' = Some VNone) \<and>
           (map_of kvs ''email'' = Some VNone \<longrightarrow> map_of items ''email'' = Some VNone) \<and>
           (\<forall>s. map_of kvs ''email'' = Some (VStr s) \<longrightarrow>
                (\<exists>a. email_syntax s = Some a \<and> map_of items ''email'' = Some (VStr a)))"
proof -
  from assms(2) obtain tp where tp: "total_price order = Inr tp"
    by (auto simp: process_order_succeeded)
  note v = validate_order_email [OF assms(1)]
  have absent: "map_of kvs ''email'' = None \<Longrightarrow> email order = None"
    using v by simp
  have null: "map_of kvs ''email'' = Some VNone \<Longrightarrow> email order = None"
    using v by simp
  have given: "\<exists>a. email_syntax s = Some a \<and> email order = Some a"
    if m: "map_of kvs ''email'' = Some (VStr s)" for s
  proof (cases "email_syntax s")
    case None
    with v m show ?thesis by simp
  next
    case (Some a)
    with v m have "email order = Some a" by simp
    with Some show ?thesis by simp
  qed
  let ?items = "[(''email'', (case email order of None \<Rightarrow> VNone | Some a \<Rightarrow> VStr a)),
                 (''products'', VList (map dump_product (products order))),
                 (''total_price'', VNum tp),
                 (''total_quantity'', VNum (PInt (total_quantity order)))]"
  have store: "fst (process_order db customer_id order) = db @ [VDict ?items]"
    by (simp add: process_order_cases tp)
  have c1: "map_of kvs ''email'' = None \<longrightarrow> map_of ?items ''email'' = Some VNone"
    using absent by simp
  have c2: "map_of kvs ''email'' = Some VNone \<longrightarrow> map_of ?items ''email'' = Some VNone"
    using null by simp
  have c3: "\<forall>s. map_of kvs ''email'' = Some (VStr s) \<longrightarrow>
              (\<exists>a. email_syntax s = Some a \<and> map_of ?items ''email'' = Some (VStr a))"
  proof (intro allI impI)
    fix s
    assume "map_of kvs ''email'' = Some (VStr s)"
    from given [OF this] obtain a where "email_syntax s = Some a" and "email order = Some a"
      by blast
    then show "\<exists>a. email_syntax s = Some a \<and> map_of ?items ''email'' = Some (VStr a)"
      by simp
  qed
  show ?thesis
    by (rule exI [of _ ?items]) (intro conjI store c1 c2 c3)
qed

text \<open>
  A body without an email is stored with \<^verbatim>\<open>None\<close>; a body with the email
  \<^verbatim>\<open>a@b.com\<close>, already in normal form, is stored with that address.
\<close>

theorem stored_email_scenarios:
  "fst (post_order normalise_email [] ''1'' (VDict [(''products'', VList [])])) =
     [VDict [(''email'', VNone), (''products'', VList []),
             (''total_price'', VNum (PInt 0)), (''total_quantity'', VNum (PInt 0))]] \<and>
   fst (post_order normalise_email [] ''7''
          (VDict [(''email'', VStr ''a@b.com''), (''products'', VList [])])) =
     [VDict [(''email'', VStr ''a@b.com''), (''products'', VList []),
             (''total_price'', VNum (PInt 0)), (''total_quantity'', VNum (PInt 0))]]"
proof -
  have v1: "validate_order normalise_email (VDict [(''products'', VList [])]) =
              Inr \<lparr>email = None, products = []\<rparr>"
    by simp
  have v2: "validate_order normalise_email
              (VDict [(''email'', VStr ''a@b.com''), (''products'', VList [])]) =
              Inr \<lparr>email = Some ''a@b.com'', products = []\<rparr>"
    by (simp add: normalise_email_lower_domain)
  have ok: "succeeded (snd (process_order [] c \<lparr>email = e, products = []\<rparr>))" for c e
    by (simp add: process_order_succeeded total_price_def)
  from stored_email_is_validated_address [OF v1 ok [of 1 None]]
  obtain items1 where
    s1: "fst (process_order [] 1 \<lparr>email = None, products = []\<rparr>) = [] @ [VDict items1]"
    and e1: "map_of items1 ''email'' = Some VNone"
    by auto
  from stored_email_is_validated_address [OF v2 ok [of 7 "Some ''a@b.com''"]]
  obtain items2 where
    s2: "fst (process_order [] 7 \<lparr>email = Some ''a@b.com'', products = []\<rparr>) = [] @ [VDict items2]"
    and e2: "map_of items2 ''email'' = Some (VStr ''a@b.com'')"
    by (auto simp: normalise_email_lower_domain)
  from s1 e1 s2 e2 show ?thesis
    by (simp add: post_order_def dispatch_def validate_request_def parse_int_def digit_of_def
          normalise_email_lower_domain process_order_cases total_price_def total_quantity_def)
qed

text \<open>
  The claim as stated fails on the address \<^verbatim>\<open>A@B.COM\<close>: the check returns
  \<^verbatim>\<open>A@b.com\<close>, and that is what the snapshot holds.
\<close>

theorem stored_email_not_supplied_address:
  "fst (post_order normalise_email [] ''1''
          (VDict [(''email'', VStr ''A@B.COM''), (''products'', VList [])])) =
     [VDict [(''email'', VStr ''A@b.com''), (''products'', VList []),
             (''total_price'', VNum (PInt 0)), (''total_quantity'', VNum (PInt 0))]] \<and>
   VStr ''A@b.com'' \<noteq> VStr ''A@B.COM''"
  by (simp add: post_order_def dispatch_def validate_request_def parse_int_def digit_of_def
        normalise_email_upper_domain process_order_cases total_price_def total_quantity_def)

section \<open>Orders without products\<close>

text \<open>
  C7. An order with an empty product list is an order like any other, and for each one
  \<^verbatim>\<open>total_quantity == 0\<close> and \<^verbatim>\<open>total_price == 0.0\<close>: the loop returns its starting
  value, the int \<^verbatim>\<open>0\<close>, which Python's \<^verbatim>\<open>==\<close> identifies with the float \<^verbatim>\<open>0.0\<close>. The
  handler returns \<^verbatim>\<open>{"id": customer_id, "quantity": 0, "total_price": 0}\<close>, which is equal
  to \<^verbatim>\<open>{"id": customer_id, "quantity": 0, "total_price": 0.0}\<close>.
\<close>

theorem empty_order_totals:
  assumes "products order = []"
  shows "total_quantity order = 0 \<and>
         total_price order = Inr (PInt 0) \<and>
         py_eq (PInt 0) (PFloat (Finite False 0 (- 1074))) \<and>
         snd (process_order db customer_id order) =
           Inr (VDict [(''id'', VNum (PInt customer_id)),
                       (''quantity'', VNum (PInt 0)),
                       (''total_price'', VNum (PInt 0))]) \<and>
         pyval_eq (VDict [(''id'', VNum (PInt customer_id)),
                          (''quantity'', VNum (PInt 0)),
                          (''total_price'', VNum (PInt 0))])
                  (VDict [(''id'', VNum (PInt customer_id)),
                          (''quantity'', VNum (PInt 0)),
                          (''total_price'', VNum (PFloat (Finite False 0 (- 1074))))])"
proof -
  have tq: "total_quantity order = 0"
    using assms by (simp add: total_quantity_def)
  have tp: "total_price order = Inr (PInt 0)"
    using assms by (simp add: total_price_def)
  have zero: "py_eq (PInt 0) (PFloat (Finite False 0 (- 1074)))"
    by (simp add: signed_def)
  from tq tp zero show ?thesis
    by (simp add: process_order_cases)
qed

text \<open>
  Scenario C of the specification: \<^verbatim>\<open>POST /order/1\<close> with an empty product list is
  accepted, stored, and answered with zero totals.
\<close>

theorem empty_order_scenario_C:
  "post_order (\<lambda>s. if CHR ''@'' \<in> set s then Some s else None) [] ''1''
     (VDict [(''products'', VList [])]) =
   ([VDict [(''email'', VNone), (''products'', VList []),
            (''total_price'', VNum (PInt 0)), (''total_quantity'', VNum (PInt 0))]],
    Inr (VDict [(''id'', VNum (PInt 1)), (''quantity'', VNum (PInt 0)),
                (''total_price'', VNum (PInt 0))])) \<and>
   pyval_eq (VDict [(''id'', VNum (PInt 1)), (''quantity'', VNum (PInt 0)),
                    (''total_price'', VNum (PInt 0))])
            (VDict [(''id'', VNum (PInt 1)), (''quantity'', VNum (PInt 0)),
                    (''total_price'', VNum (PFloat (Finite False 0 (- 1074))))])"
proof -
  let ?order = "\<lparr>email = None, products = []\<rparr>"
  have empty: "products ?order = []"
    by simp
  have valid: "validate_request (\<lambda>s. if CHR ''@'' \<in> set s then Some s else None)
                 (''1'', VDict [(''products'', VList [])]) = Inr (1, ?order)"
    by (simp add: validate_request_def parse_int_def digit_of_def)
  have store: "fst (process_order [] 1 ?order) =
      [VDict [(''email'', VNone), (''products'', VList []),
              (''total_price'', VNum (PInt 0)), (''total_quantity'', VNum (PInt 0))]]"
    by (simp add: process_order_cases total_price_def total_quantity_def)
  from empty_order_totals [OF empty, of "[]" 1]
  have "snd (process_order [] 1 ?order) =
          Inr (VDict [(''id'', VNum (PInt 1)), (''quantity'', VNum (PInt 0)),
                      (''total_price'', VNum (PInt 0))])"
    and eq: "pyval_eq (VDict [(''id'', VNum (PInt 1)), (''quantity'', VNum (PInt 0)),
                    (''total_price'', VNum (PInt 0))])
            (VDict [(''id'', VNum (PInt 1)), (''quantity'', VNum (PInt 0)),
                    (''total_price'', VNum (PFloat (Finite False 0 (- 1074))))])"
    by blast+
  with store have "process_order [] 1 ?order =
      ([VDict [(''email'', VNone), (''products'', VList []),
               (''total_price'', VNum (PInt 0)), (''total_quantity'', VNum (PInt 0))]],
       Inr (VDict [(''id'', VNum (PInt 1)), (''quantity'', VNum (PInt 0)),
                   (''total_price'', VNum (PInt 0))]))"
    by (simp add: prod_eq_iff)
  with valid eq show ?thesis
    by (simp add: post_order_def dispatch_def)
qed

section \<open>Concatenated product lists\<close>

text \<open>
  C9, as amended. \<^verbatim>\<open>total_quantity\<close> is additive over the concatenation of two product
  lists. \<^verbatim>\<open>total_price\<close> of the concatenation is the accumulation over the second list
  continued from the total of the first (and raises when that total raises). It is not
  the float sum of the two totals in general, since float addition is not associative.
\<close>

theorem totals_over_concatenation:
  "total_quantity \<lparr>email = e, products = p1 @ p2\<rparr> =
     total_quantity \<lparr>email = e1, products = p1\<rparr> + total_quantity \<lparr>email = e2, products = p2\<rparr> \<and>
   total_price \<lparr>email = e, products = p1 @ p2\<rparr> =
     (case total_price \<lparr>email = e1, products = p1\<rparr> of
        Inl err \<Rightarrow> Inl err
      | Inr t \<Rightarrow> total_price_loop t p2)"
  by (simp add: total_quantity_def total_price_def total_quantity_loop_sum total_price_loop_append)

text \<open>
  The claim as stated fails on three products of quantity 1: one at \<open>2 ^ 53\<close> (the
  float \<open>4503599627370496 * 2 ^ 1\<close>) followed by two at \<^verbatim>\<open>1.0\<close>. Added one by one,
  each \<^verbatim>\<open>1.0\<close> is rounded away and the total stays \<open>2 ^ 53\<close>; the totals of the two
  parts are \<open>2 ^ 53\<close> and \<^verbatim>\<open>2.0\<close>, whose sum is \<open>2 ^ 53 + 2\<close>.
\<close>

theorem total_price_not_additive:
  "total_price
     \<lparr>email = None,
      products = [\<lparr>product_name = ''A'', price = Finite False 4503599627370496 1, quantity = 1\<rparr>] @
                 [\<lparr>product_name = ''B'', price = Finite False 4503599627370496 (- 52), quantity = 1\<rparr>,
                  \<lparr>product_name = ''B'', price = Finite False 4503599627370496 (- 52), quantity = 1\<rparr>]\<rparr> =
     Inr (PFloat (Finite False 4503599627370496 1)) \<and>
   total_price
     \<lparr>email = None,
      products = [\<lparr>product_name = ''A'', price = Finite False 4503599627370496 1, quantity = 1\<rparr>]\<rparr> =
     Inr (PFloat (Finite False 4503599627370496 1)) \<and>
   total_price
     \<lparr>email = None,
      products = [\<lparr>product_name = ''B'', price = Finite False 4503599627370496 (- 52), quantity = 1\<rparr>,
                  \<lparr>product_name = ''B'', price = Finite False 4503599627370496 (- 52), quantity = 1\<rparr>]\<rparr> =
     Inr (PFloat (Finite False 4503599627370496 (- 51))) \<and>
   py_add (PFloat (Finite False 4503599627370496 1)) (PFloat (Finite False 4503599627370496 (- 51))) =
     Inr (PFloat (Finite False 4503599627370497 1)) \<and>
   \<not> py_eq (PFloat (Finite False 4503599627370496 1)) (PFloat (Finite False 4503599627370497 1))"
  by code_simp

section \<open>Requests that fail validation\<close>

lemma dispatch_rejects:
  "validate req = Inl verr \<Longrightarrow> dispatch validate db req = (db, Inl (Rejected verr))"
  by (simp add: dispatch_def)

text \<open>
  C4. A request that fails validation is answered with the validation error; the handler
  is not called and the order store is left as it was.
\<close>

theorem validation_failure_leaves_store:
  assumes "validate_request email_syntax (path_id, body) = Inl verr"
  shows "post_order email_syntax db path_id body = (db, Inl (Rejected verr))"
  using assms by (simp add: post_order_def dispatch_def)

text \<open>
  Scenario D of the specification: \<^verbatim>\<open>POST /order/1\<close> with the email
  \<^verbatim>\<open>not-an-email\<close>, under a syntax check that asks at least for an at sign.
\<close>

theorem rejected_request_scenario_D:
  "post_order (\<lambda>s. if CHR ''@'' \<in> set s then Some s else None) [] ''1''
     (VDict [(''email'', VStr ''not-an-email''), (''products'', VList [])]) =
   ([], Inl (Rejected BadEmail))"
proof -
  have "validate_request (\<lambda>s. if CHR ''@'' \<in> set s then Some s else None)
          (''1'', VDict [(''email'', VStr ''not-an-email''), (''products'', VList [])]) =
        Inl BadEmail"
    by (simp add: validate_request_def parse_int_def digit_of_def)
  from validation_failure_leaves_store [OF this] show ?thesis .
qed

text \<open>
  The failures the specification names: a customer identifier that is not an integer, a
  body without \<^verbatim>\<open>products\<close>, an email that the syntax check refuses, and a field of
  the wrong type.
\<close>

lemma rejects_malformed_customer_id:
  "parse_int path_id = None \<Longrightarrow>
   validate_request email_syntax (path_id, body) = Inl BadPathParameter"
  by (simp add: validate_request_def)

lemma rejects_invalid_body:
  "validate_order email_syntax body = Inl verr \<Longrightarrow>
   \<exists>verr'. validate_request email_syntax (path_id, body) = Inl verr'"
  by (simp add: validate_request_def split: option.splits)

lemma rejects_missing_products:
  "map_of kvs ''products'' = None \<Longrightarrow> \<exists>verr. validate_order email_syntax (VDict kvs) = Inl verr"
  by (simp split: sum.splits)

lemma rejects_malformed_email:
  "map_of kvs ''email'' = Some (VStr s) \<Longrightarrow> email_syntax s = None \<Longrightarrow>
   validate_order email_syntax (VDict kvs) = Inl BadEmail"
  by simp

lemma rejects_wrong_quantity_type:
  "map_of kvs ''quantity'' = Some (VStr s) \<Longrightarrow> \<exists>verr. validate_product (VDict kvs) = Inl verr"
  by (simp split: sum.splits)

lemma rejects_invalid_product:
  "map_of kvs ''products'' = Some (VList vs) \<Longrightarrow> v \<in> set vs \<Longrightarrow> validate_product v = Inl verr \<Longrightarrow>
   \<exists>verr'. validate_order email_syntax (VDict kvs) = Inl verr'"
proof -
  assume v: "v \<in> set vs" and bad: "validate_product v = Inl verr"
    and ps: "map_of kvs ''products'' = Some (VList vs)"
  from v bad have "\<exists>verr'. validate_all validate_product vs = Inl verr'"
    by (induction vs) (auto split: sum.splits)
  with ps show ?thesis
    by (auto split: sum.splits)
qed

end
